theory Spec2Isabelle
  imports Main "HOL-Library.Sublist"
begin

section \<open>Python strings\<close>

text \<open>
  A Python \<open>str\<close> is a sequence of Unicode code points, and \<open>len\<close>, slicing and
  \<open>in\<close> count code points. A string is therefore a list of code points (natural
  numbers); \<open>pystr\<close> turns an ASCII literal into such a list.
\<close>

type_synonym str = "nat list"

abbreviation ch :: "char \<Rightarrow> nat" where
  "ch \<equiv> of_char"

abbreviation pystr :: "string \<Rightarrow> str" where
  "pystr \<equiv> map of_char"

text \<open>\<open>sub in s\<close> on strings: \<open>sub\<close> occurs in \<open>s\<close> as a contiguous substring.\<close>

fun str_in :: "str \<Rightarrow> str \<Rightarrow> bool" where
  "str_in sub [] = (sub = [])"
| "str_in sub (c # cs) = (prefix sub (c # cs) \<or> str_in sub cs)"

text \<open>\<open>s.find(c, start)\<close> and \<open>s.rfind(c)\<close> for a one-character \<open>c\<close>; \<open>None\<close> is Python's -1.\<close>

definition find_ch :: "nat \<Rightarrow> str \<Rightarrow> nat \<Rightarrow> nat option" where
  "find_ch c s start =
     (if c \<in> set (drop start s)
      then Some (start + length (takeWhile (\<lambda>x. x \<noteq> c) (drop start s)))
      else None)"

definition rfind_ch :: "nat \<Rightarrow> str \<Rightarrow> nat option" where
  "rfind_ch c s =
     (if c \<in> set s
      then Some (length s - Suc (length (takeWhile (\<lambda>x. x \<noteq> c) (rev s))))
      else None)"

text \<open>\<open>s.split(c)\<close> for a one-character separator: never the empty list.\<close>

fun split_ch :: "nat \<Rightarrow> str \<Rightarrow> str list" where
  "split_ch c [] = [[]]"
| "split_ch c (x # xs) =
     (if x = c then [] # split_ch c xs
      else (case split_ch c xs of [] \<Rightarrow> [[x]] | y # ys \<Rightarrow> (x # y) # ys))"

text \<open>\<open>s.split(c, 1)\<close> when \<open>c in s\<close>: the text before and after the first \<open>c\<close>.\<close>

definition split1_ch :: "nat \<Rightarrow> str \<Rightarrow> str \<times> str" where
  "split1_ch c s = (takeWhile (\<lambda>x. x \<noteq> c) s, drop 1 (dropWhile (\<lambda>x. x \<noteq> c) s))"

text \<open>\<open>s.partition(c)\<close>: head, the separator found (empty when absent), tail.\<close>

definition partition_ch :: "nat \<Rightarrow> str \<Rightarrow> str \<times> str \<times> str" where
  "partition_ch c s =
     (if c \<in> set s
      then (takeWhile (\<lambda>x. x \<noteq> c) s, [c], drop 1 (dropWhile (\<lambda>x. x \<noteq> c) s))
      else (s, [], []))"

text \<open>\<open>s.rpartition(c)\<close>: the same around the last occurrence; all of \<open>s\<close> is the tail when
  \<open>c\<close> is absent.\<close>

definition rpartition_ch :: "nat \<Rightarrow> str \<Rightarrow> str \<times> str \<times> str" where
  "rpartition_ch c s =
     (if c \<in> set s
      then (rev (drop 1 (dropWhile (\<lambda>x. x \<noteq> c) (rev s))), [c],
            rev (takeWhile (\<lambda>x. x \<noteq> c) (rev s)))
      else ([], [], s))"

text \<open>\<open>xs[-1]\<close> and \<open>xs[0]\<close> raise IndexError on an empty list.\<close>

datatype exn =
    InvalidIPv6URL
  | InvalidIPvFuture
  | BracketedIPv4
  | NotAnIPAddress str
  | NetlocNFKC str
  | KeyError str
  | IndexError
  | UnicodeEncodeError
  | Raised str

text \<open>
  The first five are the \<open>ValueError\<close>s of \<open>urllib.parse.urlsplit\<close>, told apart by
  their cause; \<open>Raised m\<close> is an exception of an external service (the transcript
  provider, the HTTP client, a formatter, the file system) whose \<open>str\<close> is \<open>m\<close>.
\<close>

definition index_last :: "'a list \<Rightarrow> exn + 'a" where
  "index_last xs = (if xs = [] then Inl IndexError else Inr (last xs))"

definition index_first :: "'a list \<Rightarrow> exn + 'a" where
  "index_first xs = (case xs of [] \<Rightarrow> Inl IndexError | x # _ \<Rightarrow> Inr x)"

text \<open>\<open>s.lstrip(chars)\<close>, \<open>s.replace(c, "")\<close> and \<open>s.strip()\<close>.\<close>

definition lstrip_chars :: "str \<Rightarrow> str \<Rightarrow> str" where
  "lstrip_chars chars s = dropWhile (\<lambda>c. c \<in> set chars) s"

definition remove_ch :: "nat \<Rightarrow> str \<Rightarrow> str" where
  "remove_ch c s = filter (\<lambda>x. x \<noteq> c) s"

definition isspace :: "nat \<Rightarrow> bool" where
  "isspace c \<longleftrightarrow>
     (0x09 \<le> c \<and> c \<le> 0x0D) \<or> (0x1C \<le> c \<and> c \<le> 0x20) \<or> c = 0x85 \<or> c = 0xA0 \<or>
     c = 0x1680 \<or> (0x2000 \<le> c \<and> c \<le> 0x200A) \<or> c = 0x2028 \<or> c = 0x2029 \<or>
     c = 0x202F \<or> c = 0x205F \<or> c = 0x3000"

definition strip :: "str \<Rightarrow> str" where
  "strip s = rev (dropWhile isspace (rev (dropWhile isspace s)))"

definition isascii :: "nat \<Rightarrow> bool" where
  "isascii c \<longleftrightarrow> c < 0x80"

text \<open>\<open>c.isalpha()\<close> for an ASCII \<open>c\<close>, and \<open>s.lower()\<close> for an ASCII \<open>s\<close>.\<close>

definition ascii_isalpha :: "nat \<Rightarrow> bool" where
  "ascii_isalpha c \<longleftrightarrow> (0x41 \<le> c \<and> c \<le> 0x5A) \<or> (0x61 \<le> c \<and> c \<le> 0x7A)"

definition ascii_lower :: "str \<Rightarrow> str" where
  "ascii_lower s = map (\<lambda>c. if 0x41 \<le> c \<and> c \<le> 0x5A then c + 0x20 else c) s"

section \<open>urllib.parse\<close>

text \<open>
  \<open>get_video_id\<close> calls \<open>urlparse\<close> and \<open>parse_qs\<close> of the standard library. They are
  modelled after CPython 3.11's \<open>urllib/parse.py\<close>, for \<open>str\<close> arguments and the
  default keyword arguments the program uses. Three things the library computes with
  tables or other modules are parameters of the model:
  \<^item> \<open>ip_address\<close>: what \<open>ipaddress.ip_address\<close> makes of a bracketed host
    (\<open>None\<close> when it raises \<open>ValueError\<close>);
  \<^item> \<open>nfkc\<close>: \<open>unicodedata.normalize('NFKC', _)\<close>, used on a non-ASCII netloc only;
  \<^item> \<open>pct_decode\<close>: the decoding of the \<open>%xx\<close> escapes of a string that contains
    \<open>%\<close> (as UTF-8, undecodable bytes replaced).
\<close>

datatype ipkind = IPv4Address | IPv6Address

record urllib =
  ip_address :: "str \<Rightarrow> ipkind option"
  nfkc :: "str \<Rightarrow> str"
  pct_decode :: "str \<Rightarrow> str"

definition uses_params :: "str list" where
  "uses_params = map pystr ['''', ''ftp'', ''hdl'', ''prospero'', ''http'', ''imap'',
     ''https'', ''shttp'', ''rtsp'', ''rtsps'', ''rtspu'', ''sip'', ''sips'', ''mms'',
     ''sftp'', ''tel'']"

definition scheme_chars :: str where
  "scheme_chars = pystr ''abcdefghijklmnopqrstuvwxyz'' @ pystr ''ABCDEFGHIJKLMNOPQRSTUVWXYZ''
     @ pystr ''0123456789'' @ pystr ''+-.''"

definition WHATWG_C0_CONTROL_OR_SPACE :: str where
  "WHATWG_C0_CONTROL_OR_SPACE = [0 ..< 0x21]"

definition UNSAFE_URL_BYTES_TO_REMOVE :: str where
  "UNSAFE_URL_BYTES_TO_REMOVE = [0x09, 0x0D, 0x0A]"

definition splitparams :: "str \<Rightarrow> str \<times> str" where
  "splitparams url =
     (case rfind_ch (ch CHR ''/'') url of
        Some r \<Rightarrow>
          (case find_ch (ch CHR '';'') url r of
             None \<Rightarrow> (url, [])
           | Some i \<Rightarrow> (take i url, drop (i + 1) url))
      | None \<Rightarrow>
          (case find_ch (ch CHR '';'') url 0 of
             None \<Rightarrow> (butlast url, url)
           | Some i \<Rightarrow> (take i url, drop (i + 1) url)))"

text \<open>
  In the branch without a slash the source does not test \<open>i\<close>: with \<open>i = -1\<close> it
  would return \<open>url[:-1]\<close> and \<open>url[0:]\<close>. \<open>urlparse\<close> calls \<open>_splitparams\<close> only when
  the string has a semicolon, so that case does not arise there.
\<close>

definition splitnetloc :: "str \<Rightarrow> nat \<Rightarrow> str \<times> str" where
  "splitnetloc url start =
     (let delim = fold (\<lambda>c delim. case find_ch c url start of
                                    Some wdelim \<Rightarrow> min delim wdelim
                                  | None \<Rightarrow> delim)
                       (pystr ''/?#'') (length url)
      in (drop start (take delim url), drop delim url))"

definition checknetloc :: "urllib \<Rightarrow> str \<Rightarrow> exn + unit" where
  "checknetloc lib netloc =
     (if netloc = [] \<or> (\<forall>c \<in> set netloc. isascii c) then Inr ()
      else
        let n = remove_ch (ch CHR ''?'') (remove_ch (ch CHR ''#'')
                  (remove_ch (ch CHR '':'') (remove_ch (ch CHR ''@'') netloc)));
            netloc2 = nfkc lib n
        in if n = netloc2 then Inr ()
           else if \<exists>c \<in> set (pystr ''/?#@:''). c \<in> set netloc2 then Inl (NetlocNFKC netloc)
           else Inr ())"

definition ishexdigit :: "nat \<Rightarrow> bool" where
  "ishexdigit c \<longleftrightarrow>
     (0x30 \<le> c \<and> c \<le> 0x39) \<or> (0x41 \<le> c \<and> c \<le> 0x46) \<or> (0x61 \<le> c \<and> c \<le> 0x66)"

text \<open>
  \<open>re.match(r"\Av[a-fA-F0-9]+\..+\Z", hostname)\<close>: a \<open>v\<close>, a non-empty run of
  hexadecimal digits, a dot (which is not such a digit, so the run is the longest one),
  and at least one more character, none of them a newline.
\<close>

definition ipvfuture_match :: "str \<Rightarrow> bool" where
  "ipvfuture_match hostname =
     (case hostname of
        [] \<Rightarrow> False
      | v # rest \<Rightarrow>
          v = ch CHR ''v'' \<and> takeWhile ishexdigit rest \<noteq> [] \<and>
          (case dropWhile ishexdigit rest of
             [] \<Rightarrow> False
           | d # after \<Rightarrow> d = ch CHR ''.'' \<and> after \<noteq> [] \<and> 0x0A \<notin> set after))"

definition check_bracketed_host :: "urllib \<Rightarrow> str \<Rightarrow> exn + unit" where
  "check_bracketed_host lib hostname =
     (if take 1 hostname = pystr ''v''
      then (if ipvfuture_match hostname then Inr () else Inl InvalidIPvFuture)
      else (case ip_address lib hostname of
              None \<Rightarrow> Inl (NotAnIPAddress hostname)
            | Some IPv4Address \<Rightarrow> Inl BracketedIPv4
            | Some IPv6Address \<Rightarrow> Inr ()))"

text \<open>
  The end of \<open>urlsplit\<close>, from the fragment on: the rest of the URL is cut at the first
  \<open>#\<close>, then at the first \<open>?\<close>, and the netloc is checked.
\<close>

definition urlsplit_rest :: "urllib \<Rightarrow> str \<Rightarrow> str \<Rightarrow> str \<Rightarrow> exn + (str \<times> str \<times> str \<times> str \<times> str)" where
  "urlsplit_rest lib scheme netloc url =
     (let (url1, fragment) = (if ch CHR ''#'' \<in> set url then split1_ch (ch CHR ''#'') url
                              else (url, []));
          (url2, query) = (if ch CHR ''?'' \<in> set url1 then split1_ch (ch CHR ''?'') url1
                           else (url1, []))
      in case checknetloc lib netloc of
           Inl e \<Rightarrow> Inl e
         | Inr _ \<Rightarrow> Inr (scheme, netloc, url2, query, fragment))"

definition urlsplit :: "urllib \<Rightarrow> str \<Rightarrow> exn + (str \<times> str \<times> str \<times> str \<times> str)" where
  "urlsplit lib url0 =
     (let url1 = lstrip_chars WHATWG_C0_CONTROL_OR_SPACE url0;
          url2 = fold remove_ch UNSAFE_URL_BYTES_TO_REMOVE url1;
          (scheme, url3) =
            (case find_ch (ch CHR '':'') url2 0 of
               None \<Rightarrow> ([], url2)
             | Some i \<Rightarrow>
                 if i > 0 \<and> isascii (url2 ! 0) \<and> ascii_isalpha (url2 ! 0) \<and>
                    (\<forall>c \<in> set (take i url2). c \<in> set scheme_chars)
                 then (ascii_lower (take i url2), drop (i + 1) url2)
                 else ([], url2))
      in if take 2 url3 = pystr ''//''
         then
           (let (netloc, url4) = splitnetloc url3 2;
                lb = ch CHR ''['' \<in> set netloc;
                rb = ch CHR '']'' \<in> set netloc
            in if (lb \<and> \<not> rb) \<or> (rb \<and> \<not> lb) then Inl InvalidIPv6URL
               else
                 (case (if lb \<and> rb
                        then check_bracketed_host lib
                               (fst (partition_ch (ch CHR '']'')
                                  (snd (snd (partition_ch (ch CHR ''['') netloc)))))
                        else Inr ()) of
                    Inl e \<Rightarrow> Inl e
                  | Inr _ \<Rightarrow> urlsplit_rest lib scheme netloc url4))
         else urlsplit_rest lib scheme [] url3)"

record ParseResult =
  scheme :: str
  netloc :: str
  path :: str
  params :: str
  query :: str
  fragment :: str

definition urlparse :: "urllib \<Rightarrow> str \<Rightarrow> exn + ParseResult" where
  "urlparse lib url0 =
     (case urlsplit lib url0 of
        Inl e \<Rightarrow> Inl e
      | Inr (scheme1, netloc1, url, query1, fragment1) \<Rightarrow>
          let (url1, params1) = (if scheme1 \<in> set uses_params \<and> ch CHR '';'' \<in> set url
                                 then splitparams url else (url, []))
          in Inr \<lparr>scheme = scheme1, netloc = netloc1, path = url1, params = params1,
                  query = query1, fragment = fragment1\<rparr>)"

text \<open>
  \<open>_hostinfo\<close> of a parse result, as a function of its netloc: the host as written
  (after the last \<open>@\<close>, before the port, without brackets) and the port. The
  \<open>hostname\<close> attribute is this host in lower case.
\<close>

definition hostinfo :: "str \<Rightarrow> str \<times> str option" where
  "hostinfo netloc0 =
     (let hostinfo0 = snd (snd (rpartition_ch (ch CHR ''@'') netloc0));
          (have_open_br, bracketed) = snd (partition_ch (ch CHR ''['') hostinfo0);
          (hostname, port) =
            (if have_open_br \<noteq> []
             then (fst (partition_ch (ch CHR '']'') bracketed),
                   snd (snd (partition_ch (ch CHR '':'')
                     (snd (snd (partition_ch (ch CHR '']'') bracketed))))))
             else (fst (partition_ch (ch CHR '':'') hostinfo0),
                   snd (snd (partition_ch (ch CHR '':'') hostinfo0))))
      in (hostname, if port = [] then None else Some port))"

definition unquote :: "urllib \<Rightarrow> str \<Rightarrow> str" where
  "unquote lib string = (if ch CHR ''%'' \<notin> set string then string else pct_decode lib string)"

definition unquote_plus :: "urllib \<Rightarrow> str \<Rightarrow> str" where
  "unquote_plus lib string =
     unquote lib (map (\<lambda>c. if c = ch CHR ''+'' then ch CHR '' '' else c) string)"

text \<open>The loop of \<open>parse_qsl\<close> over the fields, \<open>r\<close> the list built so far.\<close>

fun parse_qsl_loop :: "urllib \<Rightarrow> str list \<Rightarrow> (str \<times> str) list \<Rightarrow> (str \<times> str) list" where
  "parse_qsl_loop lib [] r = r"
| "parse_qsl_loop lib (name_value # rest) r =
     (if name_value \<noteq> []
      then (case partition_ch (ch CHR ''='') name_value of
              (name, has_eq, val) \<Rightarrow>
                if val \<noteq> []
                then parse_qsl_loop lib rest (r @ [(unquote_plus lib name, unquote_plus lib val)])
                else parse_qsl_loop lib rest r)
      else parse_qsl_loop lib rest r)"

definition parse_qsl :: "urllib \<Rightarrow> str \<Rightarrow> (str \<times> str) list" where
  "parse_qsl lib qs = (if qs = [] then [] else parse_qsl_loop lib (split_ch (ch CHR ''&'') qs) [])"

text \<open>The loop of \<open>parse_qs\<close> over the pairs, filling the dictionary.\<close>

fun parse_qs_loop :: "(str \<times> str) list \<Rightarrow> (str \<rightharpoonup> str list) \<Rightarrow> (str \<rightharpoonup> str list)" where
  "parse_qs_loop [] parsed_result = parsed_result"
| "parse_qs_loop ((name, val) # pairs) parsed_result =
     (case parsed_result name of
        Some vals \<Rightarrow> parse_qs_loop pairs (parsed_result(name \<mapsto> vals @ [val]))
      | None \<Rightarrow> parse_qs_loop pairs (parsed_result(name \<mapsto> [val])))"

definition parse_qs :: "urllib \<Rightarrow> str \<Rightarrow> (str \<rightharpoonup> str list)" where
  "parse_qs lib qs = parse_qs_loop (parse_qsl lib qs) Map.empty"

section \<open>The video-id extractor\<close>

text \<open>
  \<open>TranscriptListWorker.get_video_id\<close> and \<open>TranscriptWorker.get_video_id\<close> have the
  same text, so one function models both. The result is \<open>Inl\<close> an exception,
  \<open>Inr None\<close> for \<open>return None\<close>, or \<open>Inr (Some id)\<close>.
\<close>

definition get_video_id :: "urllib \<Rightarrow> str \<Rightarrow> exn + str option" where
  "get_video_id lib youtube_url =
     (case urlparse lib youtube_url of
        Inl e \<Rightarrow> Inl e
      | Inr parsed_url \<Rightarrow>
          if str_in (pystr ''youtu.be'') (netloc parsed_url)
          then Inr (Some (drop 1 (path parsed_url)))
          else if str_in (pystr ''youtube.com'') (netloc parsed_url)
          then (if str_in (pystr ''shorts'') (path parsed_url)
                then (case index_last (split_ch (ch CHR ''/'') (path parsed_url)) of
                        Inl e \<Rightarrow> Inl e
                      | Inr seg \<Rightarrow> Inr (Some seg))
                else (case parse_qs lib (query parsed_url) (pystr ''v'') of
                        None \<Rightarrow> Inl (KeyError (pystr ''v''))
                      | Some vals \<Rightarrow>
                          (case index_first vals of
                             Inl e \<Rightarrow> Inl e
                           | Inr v \<Rightarrow> Inr (Some v))))
          else Inr None)"

section \<open>File names\<close>

definition invalid_chars :: str where
  "invalid_chars = pystr ''<>:\"/'' @ [ch CHR 0x5C] @ pystr ''|?*''"

definition sanitize_filename :: "str \<Rightarrow> str" where
  "sanitize_filename title = take 50 (filter (\<lambda>char. char \<notin> set invalid_chars) title)"

section \<open>External services and the file system\<close>

text \<open>
  The transcript provider, the HTTP client, the formatters and \<open>open\<close> are outside the
  program. Each is a parameter: a function from the arguments the program passes to the
  value returned or the exception raised.
  \<^item> \<open>list_transcripts\<close> is \<open>YouTubeTranscriptApi.list_transcripts(video_id)\<close>;
  \<^item> \<open>get_transcript\<close> is \<open>YouTubeTranscriptApi.get_transcript(video_id)\<close>: the program
    passes the video id and nothing else, so the provider chooses the language;
  \<^item> \<open>oembed_title\<close> is \<open>requests.get(url).json()['title']\<close>, taken to be a string when
    it is a value;
  \<^item> \<open>format_transcript\<close> is \<open>formatter.format_transcript(transcript)\<close>;
  \<^item> \<open>open_w\<close> is \<open>open(filename, 'w', encoding='utf-8')\<close>: \<open>None\<close> when the file is
    opened, which creates it or empties it;
  \<^item> \<open>linesep\<close> is \<open>os.linesep\<close>: the file is opened in text mode, where each
    newline written becomes the line separator of the platform.
  A file system maps a name, relative to the current working directory, to the bytes of
  the file. A write to an opened file is taken to reach the file.
\<close>

datatype formatter =
  JSONFormatter | PrettyPrintFormatter | TextFormatter | WebVTTFormatter | SRTFormatter

record ('tl, 'tr) services =
  list_transcripts :: "str \<Rightarrow> exn + 'tl"
  get_transcript :: "str \<Rightarrow> exn + 'tr"
  oembed_title :: "str \<Rightarrow> exn + str"
  format_transcript :: "formatter \<Rightarrow> 'tr \<Rightarrow> exn + str"
  open_w :: "str \<Rightarrow> exn option"
  linesep :: str

type_synonym fs = "str \<rightharpoonup> nat list"

text \<open>
  The UTF-8 encoding of a code point; a surrogate cannot be encoded. Python's code
  points are below \<open>0x110000\<close>.
\<close>

definition utf8_encode_cp :: "nat \<Rightarrow> exn + nat list" where
  "utf8_encode_cp c =
     (if c < 0x80 then Inr [c]
      else if c < 0x800 then Inr [0xC0 + c div 0x40, 0x80 + c mod 0x40]
      else if 0xD800 \<le> c \<and> c \<le> 0xDFFF then Inl UnicodeEncodeError
      else if c < 0x10000
      then Inr [0xE0 + c div 0x1000, 0x80 + (c div 0x40) mod 0x40, 0x80 + c mod 0x40]
      else Inr [0xF0 + c div 0x40000, 0x80 + (c div 0x1000) mod 0x40,
                0x80 + (c div 0x40) mod 0x40, 0x80 + c mod 0x40])"

fun utf8_encode :: "str \<Rightarrow> exn + nat list" where
  "utf8_encode [] = Inr []"
| "utf8_encode (c # cs) =
     (case utf8_encode_cp c of
        Inl e \<Rightarrow> Inl e
      | Inr bs \<Rightarrow> (case utf8_encode cs of Inl e \<Rightarrow> Inl e | Inr rest \<Rightarrow> Inr (bs @ rest)))"



definition translate_newlines :: "str \<Rightarrow> str \<Rightarrow> str" where
  "translate_newlines sep s = concat (map (\<lambda>c. if c = 0x0A then sep else [c]) s)"

section \<open>The workers\<close>

text \<open>
  A worker's run is the list of what it does to the outside, in order: the calls of
  external services and, last, the one signal it emits. The error signal carries
  either a literal message or \<open>str(e)\<close> of the exception caught.
\<close>

datatype errmsg = Literal str | StrOf exn

datatype 'r event =
    Requests_get str
  | List_transcripts str
  | Get_transcript str
  | Open_w str
  | Emit_error errmsg
  | Emit_finished 'r

definition no_video_id :: errmsg where
  "no_video_id = Literal (pystr ''Could not extract video ID from URL'')"

definition TranscriptListWorker_run :: "urllib \<Rightarrow> ('tl, 'tr) services \<Rightarrow> str \<Rightarrow> 'tl event list" where
  "TranscriptListWorker_run lib sv url =
     (case get_video_id lib url of
        Inl e \<Rightarrow> [Emit_error (StrOf e)]
      | Inr None \<Rightarrow> [Emit_error no_video_id]
      | Inr (Some video_id) \<Rightarrow>
          if video_id = [] then [Emit_error no_video_id]
          else (case list_transcripts sv video_id of
                  Inl e \<Rightarrow> [List_transcripts video_id, Emit_error (StrOf e)]
                | Inr transcript_list \<Rightarrow>
                    [List_transcripts video_id, Emit_finished transcript_list]))"

definition oembed_url :: "str \<Rightarrow> str" where
  "oembed_url video_id =
     pystr ''https://www.youtube.com/oembed?url=http://www.youtube.com/watch?v=''
       @ video_id @ pystr ''&format=json''"

definition get_video_title :: "('tl, 'tr) services \<Rightarrow> str \<Rightarrow> str" where
  "get_video_title sv video_id =
     (case oembed_title sv (oembed_url video_id) of
        Inr title \<Rightarrow> title
      | Inl e \<Rightarrow> video_id)"

definition formatters :: "str \<rightharpoonup> formatter \<times> str" where
  "formatters = map_of
     [(pystr ''JSON'', (JSONFormatter, pystr ''json'')),
      (pystr ''Pretty Print'', (PrettyPrintFormatter, pystr ''txt'')),
      (pystr ''Text'', (TextFormatter, pystr ''txt'')),
      (pystr ''WebVTT'', (WebVTTFormatter, pystr ''vtt'')),
      (pystr ''SRT'', (SRTFormatter, pystr ''srt''))]"

definition TranscriptWorker_run ::
  "urllib \<Rightarrow> ('tl, 'tr) services \<Rightarrow> str \<Rightarrow> str \<Rightarrow> fs \<Rightarrow> str event list \<times> fs" where
  "TranscriptWorker_run lib sv url formatter_name files =
     (case get_video_id lib url of
        Inl e \<Rightarrow> ([Emit_error (StrOf e)], files)
      | Inr None \<Rightarrow> ([Emit_error no_video_id], files)
      | Inr (Some video_id) \<Rightarrow>
          if video_id = [] then ([Emit_error no_video_id], files)
          else
            let video_title = get_video_title sv video_id;
                safe_title = sanitize_filename video_title;
                called = [Requests_get (oembed_url video_id), Get_transcript video_id]
            in case get_transcript sv video_id of
                 Inl e \<Rightarrow> (called @ [Emit_error (StrOf e)], files)
               | Inr transcript \<Rightarrow>
                   (case formatters formatter_name of
                      None \<Rightarrow> (called @ [Emit_error (StrOf (KeyError formatter_name))], files)
                    | Some (formatter, ext) \<Rightarrow>
                        (case format_transcript sv formatter transcript of
                           Inl e \<Rightarrow> (called @ [Emit_error (StrOf e)], files)
                         | Inr formatted_transcript \<Rightarrow>
                             let filename = safe_title @ pystr ''.'' @ ext
                             in case open_w sv filename of
                                  Some e \<Rightarrow>
                                    (called @ [Open_w filename, Emit_error (StrOf e)], files)
                                | None \<Rightarrow>
                                    (case utf8_encode (translate_newlines (linesep sv) formatted_transcript) of
                                       Inl e \<Rightarrow>
                                         (called @ [Open_w filename, Emit_error (StrOf e)],
                                          files(filename \<mapsto> []))
                                     | Inr data \<Rightarrow>
                                         (called @ [Open_w filename, Emit_finished filename],
                                          files(filename \<mapsto> data))))))"

section \<open>The window\<close>

text \<open>
  The state of \<open>MainWindow\<close> that \<open>start_conversion\<close> can see: the text of the URL field,
  the items and the current index of the two language boxes, the current text of the
  format box, the two buttons and the status label.
\<close>

record MainWindow =
  url_input :: str
  language_combo :: "str list \<times> nat"
  translation_combo :: "str list \<times> nat"
  formatter_combo :: str
  check_button_enabled :: bool
  convert_button_enabled :: bool
  status_label :: str

definition start_conversion ::
  "urllib \<Rightarrow> ('tl, 'tr) services \<Rightarrow> MainWindow \<Rightarrow> fs \<Rightarrow> MainWindow \<times> str event list \<times> fs" where
  "start_conversion lib sv self files =
     (let url = strip (url_input self);
          self1 = self\<lparr>convert_button_enabled := False,
                       status_label := pystr ''Obtaining transcript...''\<rparr>
      in (self1, TranscriptWorker_run lib sv url (formatter_combo self) files))"

section \<open>Auxiliary notions and sample environments\<close>

text \<open>
  What \<open>_splitnetloc\<close> leaves after the netloc is empty or starts with one of the three
  delimiters.
\<close>

definition delimited :: "str \<Rightarrow> bool" where
  "delimited url \<longleftrightarrow> url = [] \<or> hd url \<in> {ch CHR ''/'', ch CHR ''?'', ch CHR ''#''}"

text \<open>
  Concrete instances of the parameters, on which the model is run: a library whose
  escapes and normalisation are never needed for the sample URLs; services whose title
  lookup fails and whose transcript has the single line \<open>Hi\<close>; services with a title
  lookup that succeeds, a transcript with characters outside ASCII and a newline, and
  the line separator of Windows.
\<close>

definition sample_urllib :: urllib where
  "sample_urllib = \<lparr>ip_address = (\<lambda>_. None), nfkc = (\<lambda>s. s), pct_decode = (\<lambda>s. s)\<rparr>"

definition sample_services :: "(str list, str list) services" where
  "sample_services =
     \<lparr>list_transcripts = (\<lambda>video_id. Inl (Raised (pystr ''Could not retrieve a transcript''))),
      get_transcript = (\<lambda>video_id. Inr [pystr ''Hi'']),
      oembed_title = (\<lambda>url. Inl (Raised (pystr ''Connection refused''))),
      format_transcript = (\<lambda>formatter transcript. Inr (concat transcript)),
      open_w = (\<lambda>filename. None),
      linesep = [0x0A]\<rparr>"


section \<open>Strings, queries and parsed paths\<close>

lemma str_in_sublist: "str_in sub s \<longleftrightarrow> sublist sub s"
  by (induction s) (auto simp: sublist_Cons_right)

lemma takeWhile_neq_index:
  "c \<in> set r \<Longrightarrow>
     length (takeWhile (\<lambda>x. x \<noteq> c) r) < length r \<and> r ! length (takeWhile (\<lambda>x. x \<noteq> c) r) = c"
  by (induction r) auto

lemma find_ch_Some:
  assumes "find_ch c s start = Some i"
  shows "start \<le> i \<and> i < length s \<and> s ! i = c"
proof -
  let ?r = "drop start s"
  let ?n = "length (takeWhile (\<lambda>x. x \<noteq> c) ?r)"
  from assms have mem: "c \<in> set ?r" and i: "i = start + ?n"
    by (auto simp: find_ch_def split: if_splits)
  from takeWhile_neq_index [OF mem] have "?n < length ?r" "?r ! ?n = c"
    by simp_all
  with i show ?thesis by auto
qed

lemma split_ch_last:
  "split_ch c s \<noteq> [] \<and> last (split_ch c s) = rev (takeWhile (\<lambda>x. x \<noteq> c) (rev s))
   \<and> (c \<notin> set s \<longrightarrow> split_ch c s = [s]) \<and> (c \<in> set s \<longrightarrow> 2 \<le> length (split_ch c s))"
proof (induction s)
  case Nil
  show ?case by simp
next
  case (Cons x xs)
  show ?case
  proof (cases "x = c")
    case True
    with Cons show ?thesis
      by (auto simp: takeWhile_append Suc_le_eq)
  next
    case False
    obtain y ys where sp: "split_ch c xs = y # ys"
      using Cons by (cases "split_ch c xs") auto
    show ?thesis
    proof (cases "c \<in> set xs")
      case True
      with Cons sp have "ys \<noteq> []" by auto
      with Cons sp False True show ?thesis
        by (auto simp: takeWhile_append)
    next
      case False2: False
      with Cons sp have "y = xs" "ys = []" by auto
      with sp False False2 show ?thesis
        by (auto simp: takeWhile_append)
    qed
  qed
qed

lemma parse_qs_loop_lookup:
  "parse_qs_loop pairs m k =
     (let vs = map snd (filter (\<lambda>p. fst p = k) pairs)
      in case m k of Some ws \<Rightarrow> Some (ws @ vs) | None \<Rightarrow> if vs = [] then None else Some vs)"
proof (induction pairs arbitrary: m)
  case Nil
  show ?case by (simp split: option.splits)
next
  case (Cons p pairs)
  obtain n v where p: "p = (n, v)" by (cases p)
  show ?case
    unfolding p by (auto simp: Cons.IH Let_def split: option.splits)
qed

lemma parse_qs_lookup:
  "parse_qs lib qs k =
     (case map snd (filter (\<lambda>p. fst p = k) (parse_qsl lib qs)) of [] \<Rightarrow> None | v # vs \<Rightarrow> Some (v # vs))"
  by (simp add: parse_qs_def parse_qs_loop_lookup Let_def split: list.splits)

lemma splitnetloc_rest:
  assumes "splitnetloc url start = (n, rest)"
  shows "delimited rest"
proof -
  define f where "f = (\<lambda>c delim. case find_ch c url start of Some wdelim \<Rightarrow> min delim wdelim | None \<Rightarrow> delim)"
  have step: "d = length url \<or> (d < length url \<and> url ! d \<in> {47, 63, 35}) \<Longrightarrow> c \<in> {47, 63, 35} \<Longrightarrow>
      f c d = length url \<or> (f c d < length url \<and> url ! f c d \<in> {47, 63, 35})" for c d
    unfolding f_def by (auto split: option.splits simp: min_def dest: find_ch_Some)
  define d where "d = fold f (pystr ''/?#'') (length url)"
  have d0: "length url = length url \<or> (length url < length url \<and> url ! length url \<in> {47, 63, 35})"
    by simp
  have d1: "47 \<in> {47, 63, 35::nat}" and d2: "63 \<in> {47, 63, 35::nat}" and d3: "35 \<in> {47, 63, 35::nat}"
    by simp_all
  have "d = f 35 (f 63 (f 47 (length url)))"
    by (simp add: d_def)
  with step [OF step [OF step [OF d0 d1] d2] d3]
  have d: "d = length url \<or> (d < length url \<and> url ! d \<in> {47, 63, 35})"
    by simp
  from assms have "rest = drop d url"
    by (simp add: splitnetloc_def d_def f_def Let_def)
  with d show ?thesis
    by (auto simp: delimited_def hd_drop_conv_nth)
qed

lemma urlsplit_rest_path:
  assumes "urlsplit_rest lib sch nl url = Inr (s, n, pth, q, f)" and "delimited url"
  shows "n = nl \<and> (pth = [] \<or> hd pth = ch CHR ''/'')"
proof (cases url)
  case Nil
  with assms show ?thesis
    by (auto simp: urlsplit_rest_def split1_ch_def split: sum.splits)
next
  case (Cons x xs)
  with assms(2) have "x = 47 \<or> x = 63 \<or> x = 35" by (simp add: delimited_def)
  with assms(1) Cons show ?thesis
    by (auto simp: urlsplit_rest_def split1_ch_def split: sum.splits if_splits)
qed

lemma splitparams_path:
  assumes "url \<noteq> []" and "hd url = ch CHR ''/''"
  shows "fst (splitparams url) \<noteq> [] \<and> hd (fst (splitparams url)) = ch CHR ''/''"
proof -
  from assms obtain xs where url: "url = 47 # xs" by (cases url) auto
  then obtain r where r: "rfind_ch 47 url = Some r" by (simp add: rfind_ch_def)
  show ?thesis
  proof (cases "find_ch 59 url r")
    case None
    with r assms show ?thesis by (simp add: splitparams_def)
  next
    case (Some i)
    from find_ch_Some [OF Some] have "url ! i = 59" by simp
    with url have "i \<noteq> 0" by (cases i) auto
    then obtain j where "i = Suc j" by (cases i) auto
    with r Some url show ?thesis by (simp add: splitparams_def)
  qed
qed

lemma urlsplit_path:
  assumes "urlsplit lib url0 = Inr (s, n, pth, q, f)" and "n \<noteq> []"
  shows "pth = [] \<or> hd pth = ch CHR ''/''"
proof -
  define url2 where "url2 = fold remove_ch UNSAFE_URL_BYTES_TO_REMOVE (lstrip_chars WHATWG_C0_CONTROL_OR_SPACE url0)"
  define su where "su = (case find_ch (ch CHR '':'') url2 0 of
               None \<Rightarrow> ([], url2)
             | Some i \<Rightarrow>
                 if i > 0 \<and> isascii (url2 ! 0) \<and> ascii_isalpha (url2 ! 0) \<and>
                    (\<forall>c \<in> set (take i url2). c \<in> set scheme_chars)
                 then (ascii_lower (take i url2), drop (i + 1) url2)
                 else ([], url2))"
  obtain sch url3 where su: "su = (sch, url3)" by (cases su)
  obtain nl url4 where sn: "splitnetloc url3 2 = (nl, url4)" by (cases "splitnetloc url3 2")
  have eq: "urlsplit lib url0 =
     (if take 2 url3 = pystr ''//''
         then
           (let lb = ch CHR ''['' \<in> set nl;
                rb = ch CHR '']'' \<in> set nl
            in if (lb \<and> \<not> rb) \<or> (rb \<and> \<not> lb) then Inl InvalidIPv6URL
               else
                 (case (if lb \<and> rb
                        then check_bracketed_host lib
                               (fst (partition_ch (ch CHR '']'')
                                  (snd (snd (partition_ch (ch CHR ''['') nl)))))
                        else Inr ()) of
                    Inl e \<Rightarrow> Inl e
                  | Inr _ \<Rightarrow> urlsplit_rest lib sch nl url4))
         else urlsplit_rest lib sch [] url3)"
    unfolding urlsplit_def Let_def url2_def [symmetric] su_def [symmetric] su
    by (simp add: sn)
  show ?thesis
  proof (cases "take 2 url3 = pystr ''//''")
    case True
    with assms(1) eq have "urlsplit_rest lib sch nl url4 = Inr (s, n, pth, q, f)"
      by (auto simp: Let_def split: if_splits sum.splits)
    from urlsplit_rest_path [OF this splitnetloc_rest [OF sn]] show ?thesis by simp
  next
    case False
    with assms(1) eq have "urlsplit_rest lib sch [] url3 = Inr (s, n, pth, q, f)"
      by simp
    then have "n = []"
      by (auto simp: urlsplit_rest_def checknetloc_def split: sum.splits prod.splits)
    with assms(2) show ?thesis by simp
  qed
qed

lemma urlparse_path:
  assumes "urlparse lib url = Inr p" and "netloc p \<noteq> []"
  shows "path p = [] \<or> (\<exists>r. path p = ch CHR ''/'' # r)"
proof (cases "urlsplit lib url")
  case (Inl e)
  with assms(1) show ?thesis by (simp add: urlparse_def)
next
  case (Inr t)
  obtain s n u q f where t: "t = (s, n, u, q, f)" by (cases t rule: prod_cases5)
  define sp where "sp = (if s \<in> set uses_params \<and> ch CHR '';'' \<in> set u then splitparams u else (u, []))"
  from assms(1) Inr t have p: "p = \<lparr>scheme = s, netloc = n, path = fst sp, params = snd sp,
                  query = q, fragment = f\<rparr>"
    by (auto simp: urlparse_def Let_def case_prod_beta sp_def)
  with assms(2) have n: "n \<noteq> []" by simp
  from Inr t have "urlsplit lib url = Inr (s, n, u, q, f)" by simp
  from urlsplit_path [OF this n] have u: "u = [] \<or> hd u = ch CHR ''/''" .
  have "path p = u \<or> (u \<noteq> [] \<and> path p = fst (splitparams u))"
    using p by (auto simp: sp_def)
  then have "path p = [] \<or> hd (path p) = ch CHR ''/''"
    using u splitparams_path [of u] by auto
  then show ?thesis by (cases "path p") auto
qed

section \<open>The extractor on the three kinds of URL\<close>

lemmas urlparse_eval = urlparse_def urlsplit_def urlsplit_rest_def Let_def lstrip_chars_def
  WHATWG_C0_CONTROL_OR_SPACE_def UNSAFE_URL_BYTES_TO_REMOVE_def remove_ch_def find_ch_def
  isascii_def ascii_isalpha_def scheme_chars_def ascii_lower_def splitnetloc_def checknetloc_def
  split1_ch_def uses_params_def

lemmas parse_qs_eval = parse_qs_def parse_qsl_def partition_ch_def unquote_plus_def unquote_def

lemma urlparse_short_link: "urlparse lib (pystr ''https://youtu.be/dQw4w9WgXcQ'') =
  Inr \<lparr>scheme = pystr ''https'', netloc = pystr ''youtu.be'', path = pystr ''/dQw4w9WgXcQ'',
       params = [], query = [], fragment = []\<rparr>"
  by (simp add: urlparse_eval)

lemma urlparse_watch: "urlparse lib (pystr ''https://www.youtube.com/watch?v=dQw4w9WgXcQ&t=5'') =
  Inr \<lparr>scheme = pystr ''https'', netloc = pystr ''www.youtube.com'', path = pystr ''/watch'',
       params = [], query = pystr ''v=dQw4w9WgXcQ&t=5'', fragment = []\<rparr>"
  by (simp add: urlparse_eval)

lemma get_video_id_parsed:
  assumes "urlparse lib url = Inr p"
  shows "get_video_id lib url =
          (if str_in (pystr ''youtu.be'') (netloc p)
           then Inr (Some (drop 1 (path p)))
           else if str_in (pystr ''youtube.com'') (netloc p)
           then (if str_in (pystr ''shorts'') (path p)
                 then Inr (Some (rev (takeWhile (\<lambda>x. x \<noteq> ch CHR ''/'') (rev (path p)))))
                 else (case map snd (filter (\<lambda>nv. fst nv = pystr ''v'') (parse_qsl lib (query p))) of
                         [] \<Rightarrow> Inl (KeyError (pystr ''v''))
                       | v # vs \<Rightarrow> Inr (Some v)))
           else Inr None)"
proof -
  have seg: "index_last (split_ch c s) = Inr (rev (takeWhile (\<lambda>x. x \<noteq> c) (rev s)))" for c s
    using split_ch_last [of c s] by (simp add: index_last_def)
  show ?thesis
    unfolding get_video_id_def assms
    by (simp add: seg parse_qs_lookup index_first_def split: list.splits)
qed

lemma str_in_nonempty: "str_in (x # xs) s \<Longrightarrow> s \<noteq> []"
  by (cases s) auto

lemma find_filter_fst:
  "(case map snd (filter (\<lambda>nv. fst nv = k) ps) of [] \<Rightarrow> a | v # vs \<Rightarrow> b v) =
   (case find (\<lambda>nv. fst nv = k) ps of None \<Rightarrow> a | Some nv \<Rightarrow> b (snd nv))"
  by (induction ps) auto

lemma urlparse_shorts: "urlparse lib (pystr ''https://www.youtube.com/shorts/abc123XYZ_'') =
  Inr \<lparr>scheme = pystr ''https'', netloc = pystr ''www.youtube.com'', path = pystr ''/shorts/abc123XYZ_'',
       params = [], query = [], fragment = []\<rparr>"
  by (simp add: urlparse_eval)

lemma urlparse_vimeo: "urlparse lib (pystr ''https://vimeo.com/12345'') =
  Inr \<lparr>scheme = pystr ''https'', netloc = pystr ''vimeo.com'', path = pystr ''/12345'',
       params = [], query = [], fragment = []\<rparr>"
  by (simp add: urlparse_eval)

lemma urlparse_bare_short_link: "urlparse lib (pystr ''https://youtu.be/'') =
  Inr \<lparr>scheme = pystr ''https'', netloc = pystr ''youtu.be'', path = pystr ''/'',
       params = [], query = [], fragment = []\<rparr>"
  by (simp add: urlparse_eval)

lemma urlparse_both_tokens_watch: "urlparse lib (pystr ''https://youtu.be.youtube.com/watch?v=abc'') =
  Inr \<lparr>scheme = pystr ''https'', netloc = pystr ''youtu.be.youtube.com'', path = pystr ''/watch'',
       params = [], query = pystr ''v=abc'', fragment = []\<rparr>"
  by (simp add: urlparse_eval)

lemma urlparse_both_tokens_shorts: "urlparse lib (pystr ''https://youtu.be.youtube.com/shorts/abc'') =
  Inr \<lparr>scheme = pystr ''https'', netloc = pystr ''youtu.be.youtube.com'', path = pystr ''/shorts/abc'',
       params = [], query = [], fragment = []\<rparr>"
  by (simp add: urlparse_eval)

text \<open>
  Claim C2. For every URL that parses and whose host (the netloc) contains
  \<open>youtu.be\<close>, the extractor returns the path without its leading slash: the path is
  empty and so is the id, or the path is a slash followed by the id. In particular
  \<open>https://youtu.be/dQw4w9WgXcQ\<close> gives \<open>dQw4w9WgXcQ\<close>.
\<close>

theorem short_link_video_id:
  assumes "urlparse lib url = Inr p" and "str_in (pystr ''youtu.be'') (netloc p)"
  shows "(\<exists>vid. get_video_id lib url = Inr (Some vid) \<and>
                (path p = [] \<and> vid = [] \<or> path p = ch CHR ''/'' # vid))
         \<and> get_video_id lib (pystr ''https://youtu.be/dQw4w9WgXcQ'') = Inr (Some (pystr ''dQw4w9WgXcQ''))"
proof
  from assms(2) have "netloc p \<noteq> []" by (auto dest: str_in_nonempty)
  from urlparse_path [OF assms(1) this]
  have "path p = [] \<and> drop 1 (path p) = [] \<or> path p = ch CHR ''/'' # drop 1 (path p)"
    by auto
  with assms show "\<exists>vid. get_video_id lib url = Inr (Some vid) \<and>
                (path p = [] \<and> vid = [] \<or> path p = ch CHR ''/'' # vid)"
    by (simp add: get_video_id_parsed)
  show "get_video_id lib (pystr ''https://youtu.be/dQw4w9WgXcQ'') = Inr (Some (pystr ''dQw4w9WgXcQ''))"
    using get_video_id_parsed [OF urlparse_short_link [of lib]] by simp
qed

theorem short_link_video_id_witness:
  "urlparse sample_urllib (pystr ''https://youtu.be/dQw4w9WgXcQ?t=5'') =
     Inr \<lparr>scheme = pystr ''https'', netloc = pystr ''youtu.be'', path = pystr ''/dQw4w9WgXcQ'',
          params = [], query = pystr ''t=5'', fragment = []\<rparr>
   \<and> str_in (pystr ''youtu.be'') (pystr ''youtu.be'')
   \<and> get_video_id sample_urllib (pystr ''https://youtu.be/dQw4w9WgXcQ?t=5'') = Inr (Some (pystr ''dQw4w9WgXcQ''))"
proof -
  have p: "urlparse sample_urllib (pystr ''https://youtu.be/dQw4w9WgXcQ?t=5'') =
     Inr \<lparr>scheme = pystr ''https'', netloc = pystr ''youtu.be'', path = pystr ''/dQw4w9WgXcQ'',
          params = [], query = pystr ''t=5'', fragment = []\<rparr>"
    by (simp add: urlparse_eval)
  have h: "str_in (pystr ''youtu.be'') (netloc \<lparr>scheme = pystr ''https'', netloc = pystr ''youtu.be'', path = pystr ''/dQw4w9WgXcQ'',
          params = [], query = pystr ''t=5'', fragment = []\<rparr>)"
    by simp
  from short_link_video_id [OF p h] p show ?thesis by auto
qed

text \<open>
  Claim C1, amended. For every URL that parses, whose host contains \<open>youtube.com\<close>
  and not \<open>youtu.be\<close>, and whose path does not contain \<open>shorts\<close>, the extractor returns
  the value of the first field named \<open>v\<close> that \<open>parse_qsl\<close> finds in the query, and
  raises \<open>KeyError\<close> when there is none. In particular
  \<open>https://www.youtube.com/watch?v=dQw4w9WgXcQ&t=5\<close> gives \<open>dQw4w9WgXcQ\<close>.
\<close>

theorem watch_video_id:
  assumes "urlparse lib url = Inr p"
    and "str_in (pystr ''youtube.com'') (netloc p)"
    and "\<not> str_in (pystr ''youtu.be'') (netloc p)"
    and "\<not> str_in (pystr ''shorts'') (path p)"
  shows "get_video_id lib url =
           (case find (\<lambda>nv. fst nv = pystr ''v'') (parse_qsl lib (query p)) of
              None \<Rightarrow> Inl (KeyError (pystr ''v''))
            | Some nv \<Rightarrow> Inr (Some (snd nv)))
         \<and> get_video_id lib (pystr ''https://www.youtube.com/watch?v=dQw4w9WgXcQ&t=5'')
             = Inr (Some (pystr ''dQw4w9WgXcQ''))"
proof
  show "get_video_id lib url =
           (case find (\<lambda>nv. fst nv = pystr ''v'') (parse_qsl lib (query p)) of
              None \<Rightarrow> Inl (KeyError (pystr ''v''))
            | Some nv \<Rightarrow> Inr (Some (snd nv)))"
    unfolding get_video_id_parsed [OF assms(1)] using assms(2-4)
    by (simp only: if_True if_False find_filter_fst)
  show "get_video_id lib (pystr ''https://www.youtube.com/watch?v=dQw4w9WgXcQ&t=5'')
             = Inr (Some (pystr ''dQw4w9WgXcQ''))"
    using get_video_id_parsed [OF urlparse_watch [of lib]] by (simp add: parse_qsl_def partition_ch_def unquote_plus_def unquote_def)
qed

theorem watch_video_id_witness:
  "urlparse sample_urllib (pystr ''https://m.youtube.com/watch?t=5&v=&v=abc&v=xyz'') =
     Inr \<lparr>scheme = pystr ''https'', netloc = pystr ''m.youtube.com'', path = pystr ''/watch'',
          params = [], query = pystr ''t=5&v=&v=abc&v=xyz'', fragment = []\<rparr>
   \<and> str_in (pystr ''youtube.com'') (pystr ''m.youtube.com'')
   \<and> \<not> str_in (pystr ''youtu.be'') (pystr ''m.youtube.com'')
   \<and> \<not> str_in (pystr ''shorts'') (pystr ''/watch'')
   \<and> get_video_id sample_urllib (pystr ''https://m.youtube.com/watch?t=5&v=&v=abc&v=xyz'') = Inr (Some (pystr ''abc''))"
proof -
  let ?p = "\<lparr>scheme = pystr ''https'', netloc = pystr ''m.youtube.com'', path = pystr ''/watch'',
          params = [], query = pystr ''t=5&v=&v=abc&v=xyz'', fragment = []\<rparr>"
  have p: "urlparse sample_urllib (pystr ''https://m.youtube.com/watch?t=5&v=&v=abc&v=xyz'') = Inr ?p"
    by (simp add: urlparse_eval)
  have h1: "str_in (pystr ''youtube.com'') (netloc ?p)" by simp
  have h2: "\<not> str_in (pystr ''youtu.be'') (netloc ?p)" by simp
  have h3: "\<not> str_in (pystr ''shorts'') (path ?p)" by simp
  from watch_video_id [OF p h1 h2 h3] p show ?thesis
    by (simp add: parse_qsl_def partition_ch_def unquote_plus_def unquote_def)
qed

text \<open>
  Without the condition on \<open>youtu.be\<close> the statement fails: the host
  \<open>youtu.be.youtube.com\<close> contains \<open>youtube.com\<close>, the path \<open>/watch\<close> has no \<open>shorts\<close>,
  the first value of \<open>v\<close> is \<open>abc\<close>, and the extractor returns \<open>watch\<close>, since the
  short-link test comes first.
\<close>

theorem watch_video_id_counterexample:
  "urlparse sample_urllib (pystr ''https://youtu.be.youtube.com/watch?v=abc'') =
     Inr \<lparr>scheme = pystr ''https'', netloc = pystr ''youtu.be.youtube.com'', path = pystr ''/watch'',
          params = [], query = pystr ''v=abc'', fragment = []\<rparr>
   \<and> str_in (pystr ''youtube.com'') (pystr ''youtu.be.youtube.com'')
   \<and> \<not> str_in (pystr ''shorts'') (pystr ''/watch'')
   \<and> parse_qs sample_urllib (pystr ''v=abc'') (pystr ''v'') = Some [pystr ''abc'']
   \<and> get_video_id sample_urllib (pystr ''https://youtu.be.youtube.com/watch?v=abc'') = Inr (Some (pystr ''watch''))
   \<and> get_video_id sample_urllib (pystr ''https://youtu.be.youtube.com/watch?v=abc'') \<noteq> Inr (Some (pystr ''abc''))"
  using get_video_id_parsed [OF urlparse_both_tokens_watch [of sample_urllib]] urlparse_both_tokens_watch [of sample_urllib]
  by (simp add: parse_qs_eval)

text \<open>
  Claim C3, amended. For every URL that parses, whose host contains \<open>youtube.com\<close>
  and not \<open>youtu.be\<close>, and whose path contains \<open>shorts\<close>, the extractor returns the final
  path segment: the part of the path after its last slash. In particular
  \<open>https://www.youtube.com/shorts/abc123XYZ_\<close> gives \<open>abc123XYZ_\<close>.
\<close>

theorem shorts_video_id:
  assumes "urlparse lib url = Inr p"
    and "str_in (pystr ''youtube.com'') (netloc p)"
    and "\<not> str_in (pystr ''youtu.be'') (netloc p)"
    and "str_in (pystr ''shorts'') (path p)"
  shows "(\<exists>pre vid. get_video_id lib url = Inr (Some vid) \<and>
                    path p = pre @ ch CHR ''/'' # vid \<and> ch CHR ''/'' \<notin> set vid)
         \<and> get_video_id lib (pystr ''https://www.youtube.com/shorts/abc123XYZ_'')
             = Inr (Some (pystr ''abc123XYZ_''))"
proof
  let ?P = "\<lambda>x. x \<noteq> ch CHR ''/''"
  let ?vid = "rev (takeWhile ?P (rev (path p)))"
  let ?dw = "dropWhile ?P (rev (path p))"
  from assms(2) have "netloc p \<noteq> []" by (auto dest: str_in_nonempty)
  moreover from assms(4) have "path p \<noteq> []" by (auto dest: str_in_nonempty)
  ultimately obtain r where r: "path p = ch CHR ''/'' # r"
    using urlparse_path [OF assms(1)] by auto
  then have "ch CHR ''/'' \<in> set (rev (path p))" by simp
  then have ne: "?dw \<noteq> []" by (auto simp: dropWhile_eq_Nil_conv)
  then obtain d ds where dw: "?dw = d # ds" by (cases ?dw) auto
  from hd_dropWhile [OF ne] dw have d: "d = ch CHR ''/''" by simp
  have "rev (path p) = takeWhile ?P (rev (path p)) @ ?dw" by simp
  then have "path p = rev ?dw @ ?vid" by (metis rev_append rev_rev_ident)
  with dw d have split: "path p = rev ds @ ch CHR ''/'' # ?vid" by simp
  have nos: "ch CHR ''/'' \<notin> set ?vid"
    using set_takeWhileD [of "ch CHR ''/''" ?P "rev (path p)"] by auto
  have "get_video_id lib url = Inr (Some ?vid)"
    using assms(2-4) by (simp add: get_video_id_parsed [OF assms(1)])
  with split nos show "\<exists>pre vid. get_video_id lib url = Inr (Some vid) \<and>
                    path p = pre @ ch CHR ''/'' # vid \<and> ch CHR ''/'' \<notin> set vid"
    by blast
  show "get_video_id lib (pystr ''https://www.youtube.com/shorts/abc123XYZ_'')
             = Inr (Some (pystr ''abc123XYZ_''))"
    using get_video_id_parsed [OF urlparse_shorts [of lib]] by simp
qed

theorem shorts_video_id_witness:
  "urlparse sample_urllib (pystr ''https://www.youtube.com/shorts/abc123XYZ_?feature=share'') =
     Inr \<lparr>scheme = pystr ''https'', netloc = pystr ''www.youtube.com'', path = pystr ''/shorts/abc123XYZ_'',
          params = [], query = pystr ''feature=share'', fragment = []\<rparr>
   \<and> str_in (pystr ''youtube.com'') (pystr ''www.youtube.com'')
   \<and> \<not> str_in (pystr ''youtu.be'') (pystr ''www.youtube.com'')
   \<and> str_in (pystr ''shorts'') (pystr ''/shorts/abc123XYZ_'')
   \<and> (\<exists>pre vid. get_video_id sample_urllib (pystr ''https://www.youtube.com/shorts/abc123XYZ_?feature=share'') = Inr (Some vid) \<and>
                    pystr ''/shorts/abc123XYZ_'' = pre @ ch CHR ''/'' # vid \<and> ch CHR ''/'' \<notin> set vid)"
proof -
  let ?p = "\<lparr>scheme = pystr ''https'', netloc = pystr ''www.youtube.com'', path = pystr ''/shorts/abc123XYZ_'',
          params = [], query = pystr ''feature=share'', fragment = []\<rparr>"
  have p: "urlparse sample_urllib (pystr ''https://www.youtube.com/shorts/abc123XYZ_?feature=share'') = Inr ?p"
    by (simp add: urlparse_eval)
  have h1: "str_in (pystr ''youtube.com'') (netloc ?p)" by simp
  have h2: "\<not> str_in (pystr ''youtu.be'') (netloc ?p)" by simp
  have h3: "str_in (pystr ''shorts'') (path ?p)" by simp
  from shorts_video_id [OF p h1 h2 h3] p show ?thesis
    by simp
qed

text \<open>
  Without the condition on \<open>youtu.be\<close> the statement fails: for
  \<open>https://youtu.be.youtube.com/shorts/abc\<close> the extractor returns \<open>shorts/abc\<close>, the
  path without its leading slash, and not the final segment \<open>abc\<close>.
\<close>

theorem shorts_video_id_counterexample:
  "urlparse sample_urllib (pystr ''https://youtu.be.youtube.com/shorts/abc'') =
     Inr \<lparr>scheme = pystr ''https'', netloc = pystr ''youtu.be.youtube.com'', path = pystr ''/shorts/abc'',
          params = [], query = [], fragment = []\<rparr>
   \<and> str_in (pystr ''youtube.com'') (pystr ''youtu.be.youtube.com'')
   \<and> str_in (pystr ''shorts'') (pystr ''/shorts/abc'')
   \<and> get_video_id sample_urllib (pystr ''https://youtu.be.youtube.com/shorts/abc'') = Inr (Some (pystr ''shorts/abc''))
   \<and> get_video_id sample_urllib (pystr ''https://youtu.be.youtube.com/shorts/abc'') \<noteq> Inr (Some (pystr ''abc''))"
  using get_video_id_parsed [OF urlparse_both_tokens_shorts [of sample_urllib]] urlparse_both_tokens_shorts [of sample_urllib]
  by simp

lemma urlparse_short_link_colon: "urlparse lib (pystr ''https://youtu.be/a:b'') =
  Inr \<lparr>scheme = pystr ''https'', netloc = pystr ''youtu.be'', path = pystr ''/a:b'',
       params = [], query = [], fragment = []\<rparr>"
  by (simp add: urlparse_eval)

text \<open>
  Claim C4, amended. For every URL that parses and whose netloc (user information, host
  and port, as written) contains neither \<open>youtu.be\<close> nor \<open>youtube.com\<close>, the extractor
  returns \<open>None\<close>, and each worker emits the one error message
  \<open>Could not extract video ID from URL\<close> and calls no external service; the file system
  is unchanged. \<open>https://vimeo.com/12345\<close> is such a URL.
\<close>

theorem unrecognized_host:
  assumes "urlparse lib url = Inr p"
    and "\<not> str_in (pystr ''youtu.be'') (netloc p)"
    and "\<not> str_in (pystr ''youtube.com'') (netloc p)"
  shows "get_video_id lib url = Inr None
         \<and> TranscriptListWorker_run lib sv url = [Emit_error no_video_id]
         \<and> TranscriptWorker_run lib sv url formatter_name files = ([Emit_error no_video_id], files)
         \<and> TranscriptListWorker_run lib sv (pystr ''https://vimeo.com/12345'') = [Emit_error no_video_id]"
proof -
  have id: "get_video_id lib url = Inr None"
    using assms(2,3) by (simp add: get_video_id_parsed [OF assms(1)])
  have "get_video_id lib (pystr ''https://vimeo.com/12345'') = Inr None"
    using get_video_id_parsed [OF urlparse_vimeo [of lib]] by simp
  with id show ?thesis
    by (simp add: TranscriptListWorker_run_def TranscriptWorker_run_def)
qed

theorem unrecognized_host_witness:
  "urlparse sample_urllib (pystr ''https://vimeo.com/12345'') =
     Inr \<lparr>scheme = pystr ''https'', netloc = pystr ''vimeo.com'', path = pystr ''/12345'',
          params = [], query = [], fragment = []\<rparr>
   \<and> \<not> str_in (pystr ''youtu.be'') (pystr ''vimeo.com'')
   \<and> \<not> str_in (pystr ''youtube.com'') (pystr ''vimeo.com'')
   \<and> get_video_id sample_urllib (pystr ''https://vimeo.com/12345'') = Inr None
   \<and> TranscriptListWorker_run sample_urllib sample_services (pystr ''https://vimeo.com/12345'')
       = [Emit_error (Literal (pystr ''Could not extract video ID from URL''))]
   \<and> TranscriptWorker_run sample_urllib sample_services (pystr ''https://vimeo.com/12345'') (pystr ''SRT'') Map.empty
       = ([Emit_error (Literal (pystr ''Could not extract video ID from URL''))], Map.empty)"
proof -
  let ?p = "\<lparr>scheme = pystr ''https'', netloc = pystr ''vimeo.com'', path = pystr ''/12345'',
          params = [], query = [], fragment = []\<rparr>"
  have p: "urlparse sample_urllib (pystr ''https://vimeo.com/12345'') = Inr ?p"
    by (simp add: urlparse_eval)
  have h1: "\<not> str_in (pystr ''youtu.be'') (netloc ?p)" by simp
  have h2: "\<not> str_in (pystr ''youtube.com'') (netloc ?p)" by simp
  from unrecognized_host [OF p h1 h2, of sample_services "pystr ''SRT''" Map.empty] p show ?thesis
    by (simp add: no_video_id_def)
qed

lemma urlparse_userinfo: "urlparse lib (pystr ''https://youtu.be@vimeo.com/12345'') =
  Inr \<lparr>scheme = pystr ''https'', netloc = pystr ''youtu.be@vimeo.com'', path = pystr ''/12345'',
       params = [], query = [], fragment = []\<rparr>"
  by (simp add: urlparse_eval)

text \<open>
  For the host alone the statement fails: in \<open>https://youtu.be@vimeo.com/12345\<close> the host
  is \<open>vimeo.com\<close>, with neither token, but the netloc has \<open>youtu.be\<close> in its user
  information; the extractor returns \<open>12345\<close> and the list worker calls the provider.
\<close>

theorem unrecognized_host_counterexample:
  "urlparse sample_urllib (pystr ''https://youtu.be@vimeo.com/12345'') =
     Inr \<lparr>scheme = pystr ''https'', netloc = pystr ''youtu.be@vimeo.com'', path = pystr ''/12345'',
          params = [], query = [], fragment = []\<rparr>
   \<and> hostinfo (pystr ''youtu.be@vimeo.com'') = (pystr ''vimeo.com'', None)
   \<and> \<not> str_in (pystr ''youtu.be'') (pystr ''vimeo.com'')
   \<and> \<not> str_in (pystr ''youtube.com'') (pystr ''vimeo.com'')
   \<and> get_video_id sample_urllib (pystr ''https://youtu.be@vimeo.com/12345'') = Inr (Some (pystr ''12345''))
   \<and> TranscriptListWorker_run sample_urllib sample_services (pystr ''https://youtu.be@vimeo.com/12345'')
       = [List_transcripts (pystr ''12345''),
          Emit_error (StrOf (Raised (pystr ''Could not retrieve a transcript'')))]"
  using get_video_id_parsed [OF urlparse_userinfo [of sample_urllib]] urlparse_userinfo [of sample_urllib]
  by (simp add: TranscriptListWorker_run_def sample_services_def hostinfo_def rpartition_ch_def
        partition_ch_def)

text \<open>
  Claim C9, amended. For a short-link URL whose path is empty once the leading slash is
  dropped, the extractor returns the empty id; each worker then rejects it, emitting
  \<open>Could not extract video ID from URL\<close>, and calls no external service.
\<close>

theorem empty_short_link_id:
  assumes "urlparse lib url = Inr p"
    and "str_in (pystr ''youtu.be'') (netloc p)"
    and "drop 1 (path p) = []"
  shows "get_video_id lib url = Inr (Some [])
         \<and> TranscriptListWorker_run lib sv url = [Emit_error no_video_id]
         \<and> TranscriptWorker_run lib sv url formatter_name files = ([Emit_error no_video_id], files)"
proof -
  have "get_video_id lib url = Inr (Some [])"
    using assms(2,3) by (simp add: get_video_id_parsed [OF assms(1)])
  then show ?thesis
    by (simp add: TranscriptListWorker_run_def TranscriptWorker_run_def)
qed

theorem empty_short_link_id_witness:
  "urlparse sample_urllib (pystr ''https://youtu.be/'') =
     Inr \<lparr>scheme = pystr ''https'', netloc = pystr ''youtu.be'', path = pystr ''/'',
          params = [], query = [], fragment = []\<rparr>
   \<and> str_in (pystr ''youtu.be'') (pystr ''youtu.be'')
   \<and> drop 1 (pystr ''/'') = []
   \<and> get_video_id sample_urllib (pystr ''https://youtu.be/'') = Inr (Some [])
   \<and> TranscriptWorker_run sample_urllib sample_services (pystr ''https://youtu.be/'') (pystr ''JSON'') Map.empty
       = ([Emit_error (Literal (pystr ''Could not extract video ID from URL''))], Map.empty)"
proof -
  let ?p = "\<lparr>scheme = pystr ''https'', netloc = pystr ''youtu.be'', path = pystr ''/'',
          params = [], query = [], fragment = []\<rparr>"
  have p: "urlparse sample_urllib (pystr ''https://youtu.be/'') = Inr ?p"
    by (simp add: urlparse_eval)
  have h1: "str_in (pystr ''youtu.be'') (netloc ?p)" by simp
  have h2: "drop 1 (path ?p) = []" by simp
  from empty_short_link_id [OF p h1 h2, of sample_services "pystr ''JSON''" Map.empty] p show ?thesis
    by (simp add: no_video_id_def)
qed

text \<open>
  For \<open>https://youtu.be/\<close> the provider is not called, although it would have failed
  on the empty id: the run is the literal error message alone, not the provider's
  exception.
\<close>

theorem empty_short_link_id_counterexample:
  "get_video_id sample_urllib (pystr ''https://youtu.be/'') = Inr (Some [])
   \<and> list_transcripts sample_services [] = Inl (Raised (pystr ''Could not retrieve a transcript''))
   \<and> TranscriptListWorker_run sample_urllib sample_services (pystr ''https://youtu.be/'')
       = [Emit_error (Literal (pystr ''Could not extract video ID from URL''))]
   \<and> TranscriptListWorker_run sample_urllib sample_services (pystr ''https://youtu.be/'')
       \<noteq> [List_transcripts [], Emit_error (StrOf (Raised (pystr ''Could not retrieve a transcript'')))]
   \<and> List_transcripts [] \<notin> set (TranscriptListWorker_run sample_urllib sample_services (pystr ''https://youtu.be/''))"
  using get_video_id_parsed [OF urlparse_bare_short_link [of sample_urllib]]
  by (simp add: TranscriptListWorker_run_def no_video_id_def sample_services_def)

section \<open>File names are safe\<close>

lemma filter_take_filter:
  "filter P (take n (filter P xs)) = take n (filter P xs)"
  by (rule filter_True) (auto dest: in_set_takeD)

lemma fold_remove_ch:
  "fold remove_ch cs s = filter (\<lambda>x. x \<notin> set cs) s"
proof (induction cs arbitrary: s)
  case Nil
  show ?case by simp
next
  case (Cons c cs)
  have "fold remove_ch (c # cs) s = fold remove_ch cs (remove_ch c s)" by simp
  also have "\<dots> = filter (\<lambda>x. x \<notin> set cs) (filter (\<lambda>x. x \<noteq> c) s)"
    by (simp add: Cons.IH remove_ch_def)
  also have "\<dots> = filter (\<lambda>x. x \<notin> set (c # cs)) s"
    by (auto intro: filter_cong)
  finally show ?case .
qed

text \<open>
  Claim C5. For every title \<open>T\<close>, \<open>sanitize_filename T\<close> has at most 50 characters and
  none of the characters \<open>< > : " / \ | ? *\<close>; it is \<open>T\<close> with each forbidden character
  removed in turn, then cut to 50 characters; a title of forbidden characters only
  gives the empty name, which the function returns like any other.
\<close>

theorem sanitize_filename_safe:
  "length (sanitize_filename T) \<le> 50
   \<and> (\<forall>c \<in> set (pystr ''*?|/\":><'' @ [ch CHR 0x5C]). c \<notin> set (sanitize_filename T))
   \<and> sanitize_filename T = take 50 (fold remove_ch invalid_chars T)
   \<and> (set T \<subseteq> set invalid_chars \<longrightarrow> sanitize_filename T = [])"
proof (intro conjI)
  show "length (sanitize_filename T) \<le> 50"
    by (simp add: sanitize_filename_def)
  show "\<forall>c \<in> set (pystr ''*?|/\":><'' @ [ch CHR 0x5C]). c \<notin> set (sanitize_filename T)"
  proof
    fix c assume "c \<in> set (pystr ''*?|/\":><'' @ [ch CHR 0x5C])"
    then have bad: "c \<in> set invalid_chars"
      by (simp add: invalid_chars_def) blast
    show "c \<notin> set (sanitize_filename T)"
    proof
      assume "c \<in> set (sanitize_filename T)"
      then have "c \<in> set (filter (\<lambda>char. char \<notin> set invalid_chars) T)"
        unfolding sanitize_filename_def by (rule in_set_takeD)
      with bad show False by simp
    qed
  qed
  show "sanitize_filename T = take 50 (fold remove_ch invalid_chars T)"
    by (simp add: sanitize_filename_def fold_remove_ch)
  show "set T \<subseteq> set invalid_chars \<longrightarrow> sanitize_filename T = []"
  proof
    assume "set T \<subseteq> set invalid_chars"
    then have "filter (\<lambda>char. char \<notin> set invalid_chars) T = []"
      by (auto simp: filter_empty_conv)
    then show "sanitize_filename T = []"
      by (simp add: sanitize_filename_def)
  qed
qed

theorem sanitize_filename_safe_witness:
  "set (pystr ''?*'') \<subseteq> set invalid_chars
   \<and> sanitize_filename (pystr ''?*'') = []
   \<and> sanitize_filename (pystr ''a<b>:c'') = pystr ''abc''
   \<and> ch CHR ''<'' \<in> set (pystr ''*?|/\":><'' @ [ch CHR 0x5C])
   \<and> ch CHR ''<'' \<notin> set (sanitize_filename (pystr ''a<b>:c''))"
  using sanitize_filename_safe [of "pystr ''?*''"] sanitize_filename_safe [of "pystr ''a<b>:c''"]
  by (simp add: invalid_chars_def sanitize_filename_def remove_ch_def)

text \<open>
  Claim C10. \<open>sanitize_filename\<close> is idempotent: sanitising a sanitised title changes
  nothing.
\<close>

theorem sanitize_filename_idem:
  "sanitize_filename (sanitize_filename T) = sanitize_filename T"
  by (simp add: sanitize_filename_def filter_take_filter)

section \<open>The fetch-and-format worker\<close>

lemma TranscriptWorker_run_success:
  assumes "get_video_id lib url = Inr (Some vid)" and "vid \<noteq> []"
    and "get_transcript sv vid = Inr tr"
    and "formatters formatter_name = Some (f, ext)"
    and "format_transcript sv f tr = Inr formatted"
    and "open_w sv (sanitize_filename (get_video_title sv vid) @ pystr ''.'' @ ext) = None"
    and "utf8_encode (translate_newlines (linesep sv) formatted) = Inr data"
  shows "TranscriptWorker_run lib sv url formatter_name files =
           ([Requests_get (oembed_url vid), Get_transcript vid,
             Open_w (sanitize_filename (get_video_title sv vid) @ pystr ''.'' @ ext),
             Emit_finished (sanitize_filename (get_video_title sv vid) @ pystr ''.'' @ ext)],
            files(sanitize_filename (get_video_title sv vid) @ pystr ''.'' @ ext \<mapsto> data))"
  using assms by (simp add: TranscriptWorker_run_def Let_def)

lemma TranscriptWorker_run_fetches:
  assumes "get_video_id lib url = Inr (Some vid)" and "vid \<noteq> []"
  shows "Get_transcript vid \<in> set (fst (TranscriptWorker_run lib sv url formatter_name files))"
  using assms
  by (simp add: TranscriptWorker_run_def Let_def split: sum.splits option.splits prod.splits)


lemma sanitize_filename_id:
  assumes "length s \<le> 50" and "set s \<inter> set invalid_chars = {}"
  shows "sanitize_filename s = s"
proof -
  from assms(2) have "filter (\<lambda>char. char \<notin> set invalid_chars) s = s"
    by (auto intro: filter_True)
  with assms(1) show ?thesis by (simp add: sanitize_filename_def)
qed


text \<open>
  Claim C6, amended. When the title lookup raises, \<open>get_video_title\<close> returns the
  video id. The worker goes on to fetch the transcript, and when the remaining steps
  succeed it writes the file whose stem is the sanitised video id; the stem is the video
  id itself when the id has at most 50 characters and no forbidden one.
\<close>

theorem title_lookup_failure:
  assumes "oembed_title sv (oembed_url vid) = Inl e"
  shows "get_video_title sv vid = vid
     \<and> (get_video_id lib url = Inr (Some vid) \<and> vid \<noteq> [] \<longrightarrow>
          Get_transcript vid \<in> set (fst (TranscriptWorker_run lib sv url formatter_name files)))
     \<and> (get_video_id lib url = Inr (Some vid) \<and> vid \<noteq> [] \<and> get_transcript sv vid = Inr tr \<and>
        formatters formatter_name = Some (f, ext) \<and> format_transcript sv f tr = Inr formatted \<and>
        open_w sv (sanitize_filename vid @ pystr ''.'' @ ext) = None \<and>
        utf8_encode (translate_newlines (linesep sv) formatted) = Inr data \<longrightarrow>
          TranscriptWorker_run lib sv url formatter_name files =
            ([Requests_get (oembed_url vid), Get_transcript vid,
              Open_w (sanitize_filename vid @ pystr ''.'' @ ext),
              Emit_finished (sanitize_filename vid @ pystr ''.'' @ ext)],
             files(sanitize_filename vid @ pystr ''.'' @ ext \<mapsto> data)))
     \<and> (length vid \<le> 50 \<and> set vid \<inter> set invalid_chars = {} \<longrightarrow> sanitize_filename vid = vid)"
proof -
  from assms have t: "get_video_title sv vid = vid"
    by (simp add: get_video_title_def)
  show ?thesis
    using TranscriptWorker_run_success [of lib url vid sv tr formatter_name f ext formatted data files]
      TranscriptWorker_run_fetches [of lib url vid sv formatter_name files]
      sanitize_filename_id [of vid]
    by (simp add: t)
qed

lemma utf8_Hi:
  "utf8_encode (translate_newlines (linesep sample_services) (pystr ''Hi'')) = Inr [72, 105]"
  by (simp_all add: utf8_encode_cp_def translate_newlines_def sample_services_def)

theorem title_lookup_failure_witness:
  "oembed_title sample_services (oembed_url (pystr ''dQw4w9WgXcQ'')) = Inl (Raised (pystr ''Connection refused''))
   \<and> get_video_id sample_urllib (pystr ''https://youtu.be/dQw4w9WgXcQ'') = Inr (Some (pystr ''dQw4w9WgXcQ''))
   \<and> pystr ''dQw4w9WgXcQ'' \<noteq> []
   \<and> get_transcript sample_services (pystr ''dQw4w9WgXcQ'') = Inr [pystr ''Hi'']
   \<and> formatters (pystr ''Text'') = Some (TextFormatter, pystr ''txt'')
   \<and> format_transcript sample_services TextFormatter [pystr ''Hi''] = Inr (pystr ''Hi'')
   \<and> open_w sample_services (sanitize_filename (pystr ''dQw4w9WgXcQ'') @ pystr ''.'' @ pystr ''txt'') = None
   \<and> utf8_encode (translate_newlines (linesep sample_services) (pystr ''Hi'')) = Inr [72, 105]
   \<and> length (pystr ''dQw4w9WgXcQ'') \<le> 50 \<and> set (pystr ''dQw4w9WgXcQ'') \<inter> set invalid_chars = {}
   \<and> get_video_title sample_services (pystr ''dQw4w9WgXcQ'') = pystr ''dQw4w9WgXcQ''
   \<and> TranscriptWorker_run sample_urllib sample_services (pystr ''https://youtu.be/dQw4w9WgXcQ'') (pystr ''Text'') Map.empty =
        ([Requests_get (oembed_url (pystr ''dQw4w9WgXcQ'')), Get_transcript (pystr ''dQw4w9WgXcQ''),
          Open_w (pystr ''dQw4w9WgXcQ.txt''), Emit_finished (pystr ''dQw4w9WgXcQ.txt'')],
         [pystr ''dQw4w9WgXcQ.txt'' \<mapsto> [72, 105]])"
proof -
  have h: "oembed_title sample_services (oembed_url (pystr ''dQw4w9WgXcQ'')) = Inl (Raised (pystr ''Connection refused''))"
    by (simp add: sample_services_def)
  have id: "get_video_id sample_urllib (pystr ''https://youtu.be/dQw4w9WgXcQ'') = Inr (Some (pystr ''dQw4w9WgXcQ''))"
    using get_video_id_parsed [OF urlparse_short_link [of sample_urllib]] by simp
  have safe: "set (pystr ''dQw4w9WgXcQ'') \<inter> set invalid_chars = {}"
    by (simp add: invalid_chars_def)
  from title_lookup_failure [OF h, of sample_urllib "pystr ''https://youtu.be/dQw4w9WgXcQ''"
      "pystr ''Text''" Map.empty "[pystr ''Hi'']" TextFormatter "pystr ''txt''" "pystr ''Hi''" "[72, 105]"]
    id safe utf8_Hi(1)
  show ?thesis
    by (simp add: sample_services_def formatters_def)
qed

text \<open>
  The stem is not the video id for every id: for \<open>https://youtu.be/a:b\<close> with a failing
  title lookup the id is \<open>a:b\<close>, the file written is \<open>ab.json\<close>, and no file
  \<open>a:b.json\<close> exists.
\<close>

theorem title_lookup_failure_counterexample:
  "get_video_id sample_urllib (pystr ''https://youtu.be/a:b'') = Inr (Some (pystr ''a:b''))
   \<and> oembed_title sample_services (oembed_url (pystr ''a:b'')) = Inl (Raised (pystr ''Connection refused''))
   \<and> get_video_title sample_services (pystr ''a:b'') = pystr ''a:b''
   \<and> TranscriptWorker_run sample_urllib sample_services (pystr ''https://youtu.be/a:b'') (pystr ''JSON'') Map.empty =
        ([Requests_get (oembed_url (pystr ''a:b'')), Get_transcript (pystr ''a:b''),
          Open_w (pystr ''ab.json''), Emit_finished (pystr ''ab.json'')],
         [pystr ''ab.json'' \<mapsto> [72, 105]])
   \<and> snd (TranscriptWorker_run sample_urllib sample_services (pystr ''https://youtu.be/a:b'') (pystr ''JSON'') Map.empty)
        (pystr ''a:b.json'') = None"
proof -
  have id: "get_video_id sample_urllib (pystr ''https://youtu.be/a:b'') = Inr (Some (pystr ''a:b''))"
    using get_video_id_parsed [OF urlparse_short_link_colon [of sample_urllib]] by simp
  have t: "get_video_title sample_services (pystr ''a:b'') = pystr ''a:b''"
    by (simp add: get_video_title_def sample_services_def)
  have s: "sanitize_filename (pystr ''a:b'') = pystr ''ab''"
    by (simp add: sanitize_filename_def invalid_chars_def)
  have run: "TranscriptWorker_run sample_urllib sample_services (pystr ''https://youtu.be/a:b'') (pystr ''JSON'') Map.empty =
        ([Requests_get (oembed_url (pystr ''a:b'')), Get_transcript (pystr ''a:b''),
          Open_w (pystr ''ab.json''), Emit_finished (pystr ''ab.json'')],
         [pystr ''ab.json'' \<mapsto> [72, 105]])"
    using TranscriptWorker_run_success [of sample_urllib "pystr ''https://youtu.be/a:b''" "pystr ''a:b''"
        sample_services "[pystr ''Hi'']" "pystr ''JSON''" JSONFormatter "pystr ''json''" "pystr ''Hi''" "[72, 105]" Map.empty]
      id t s utf8_Hi(1)
    by (simp add: sample_services_def formatters_def)
  show ?thesis
    using id t run by (simp add: sample_services_def)
qed

subsection \<open>The encoding of the file\<close>


lemma join2: "(c::nat) div 0x40 * 0x40 + c mod 0x40 = c"
  by simp












text \<open>
  Claim C8. What the conversion does (the calls, the signal, the files) depends on the
  URL field and the format box only: two windows that agree on these give the same
  run, whatever the language and translation boxes hold. The run is the worker's run on
  the stripped URL and the format name; the transcript is requested with the video id
  alone.
\<close>

theorem language_selection_ignored:
  assumes "url_input w1 = url_input w2" and "formatter_combo w1 = formatter_combo w2"
  shows "snd (start_conversion lib sv w1 files) = snd (start_conversion lib sv w2 files)
     \<and> snd (start_conversion lib sv (w1\<lparr>language_combo := l, translation_combo := t\<rparr>) files)
         = snd (start_conversion lib sv w1 files)
     \<and> snd (start_conversion lib sv w1 files)
         = TranscriptWorker_run lib sv (strip (url_input w1)) (formatter_combo w1) files"
  using assms by (simp add: start_conversion_def Let_def)

theorem language_selection_ignored_witness:
  "url_input \<lparr>url_input = pystr '' https://youtu.be/dQw4w9WgXcQ '', language_combo = ([pystr ''English (en)'', pystr ''German (de)''], 0),
       translation_combo = ([pystr ''French (fr)''], 0), formatter_combo = pystr ''Text'',
       check_button_enabled = True, convert_button_enabled = True, status_label = pystr ''Ready to convert''\<rparr>
   = url_input \<lparr>url_input = pystr '' https://youtu.be/dQw4w9WgXcQ '', language_combo = ([pystr ''English (en)'', pystr ''German (de)''], 1),
       translation_combo = ([pystr ''French (fr)''], 0), formatter_combo = pystr ''Text'',
       check_button_enabled = True, convert_button_enabled = True, status_label = pystr ''Ready to convert''\<rparr>
   \<and> snd (start_conversion sample_urllib sample_services
        \<lparr>url_input = pystr '' https://youtu.be/dQw4w9WgXcQ '', language_combo = ([pystr ''English (en)'', pystr ''German (de)''], 0),
       translation_combo = ([pystr ''French (fr)''], 0), formatter_combo = pystr ''Text'',
       check_button_enabled = True, convert_button_enabled = True, status_label = pystr ''Ready to convert''\<rparr> Map.empty)
     = snd (start_conversion sample_urllib sample_services
        \<lparr>url_input = pystr '' https://youtu.be/dQw4w9WgXcQ '', language_combo = ([pystr ''English (en)'', pystr ''German (de)''], 1),
       translation_combo = ([pystr ''French (fr)''], 0), formatter_combo = pystr ''Text'',
       check_button_enabled = True, convert_button_enabled = True, status_label = pystr ''Ready to convert''\<rparr> Map.empty)
   \<and> snd (start_conversion sample_urllib sample_services
        \<lparr>url_input = pystr '' https://youtu.be/dQw4w9WgXcQ '', language_combo = ([pystr ''English (en)'', pystr ''German (de)''], 1),
       translation_combo = ([pystr ''French (fr)''], 0), formatter_combo = pystr ''Text'',
       check_button_enabled = True, convert_button_enabled = True, status_label = pystr ''Ready to convert''\<rparr> Map.empty)
     = ([Requests_get (oembed_url (pystr ''dQw4w9WgXcQ'')), Get_transcript (pystr ''dQw4w9WgXcQ''),
          Open_w (pystr ''dQw4w9WgXcQ.txt''), Emit_finished (pystr ''dQw4w9WgXcQ.txt'')],
         [pystr ''dQw4w9WgXcQ.txt'' \<mapsto> [72, 105]])"
proof -
  let ?w1 = "\<lparr>url_input = pystr '' https://youtu.be/dQw4w9WgXcQ '', language_combo = ([pystr ''English (en)'', pystr ''German (de)''], 0::nat),
       translation_combo = ([pystr ''French (fr)''], 0::nat), formatter_combo = pystr ''Text'',
       check_button_enabled = True, convert_button_enabled = True, status_label = pystr ''Ready to convert''\<rparr>"
  let ?w2 = "\<lparr>url_input = pystr '' https://youtu.be/dQw4w9WgXcQ '', language_combo = ([pystr ''English (en)'', pystr ''German (de)''], 1::nat),
       translation_combo = ([pystr ''French (fr)''], 0::nat), formatter_combo = pystr ''Text'',
       check_button_enabled = True, convert_button_enabled = True, status_label = pystr ''Ready to convert''\<rparr>"
  have h1: "url_input ?w1 = url_input ?w2" by simp
  have h2: "formatter_combo ?w1 = formatter_combo ?w2" by simp
  have s: "strip (pystr '' https://youtu.be/dQw4w9WgXcQ '') = pystr ''https://youtu.be/dQw4w9WgXcQ''"
    by (simp add: strip_def isspace_def)
  have id: "get_video_id sample_urllib (pystr ''https://youtu.be/dQw4w9WgXcQ'') = Inr (Some (pystr ''dQw4w9WgXcQ''))"
    using get_video_id_parsed [OF urlparse_short_link [of sample_urllib]] by simp
  have t: "get_video_title sample_services (pystr ''dQw4w9WgXcQ'') = pystr ''dQw4w9WgXcQ''"
    by (simp add: get_video_title_def sample_services_def)
  have sf: "sanitize_filename (pystr ''dQw4w9WgXcQ'') = pystr ''dQw4w9WgXcQ''"
    by (simp add: sanitize_filename_def invalid_chars_def)
  have run: "TranscriptWorker_run sample_urllib sample_services (pystr ''https://youtu.be/dQw4w9WgXcQ'') (pystr ''Text'') Map.empty =
        ([Requests_get (oembed_url (pystr ''dQw4w9WgXcQ'')), Get_transcript (pystr ''dQw4w9WgXcQ''),
          Open_w (pystr ''dQw4w9WgXcQ.txt''), Emit_finished (pystr ''dQw4w9WgXcQ.txt'')],
         [pystr ''dQw4w9WgXcQ.txt'' \<mapsto> [72, 105]])"
    using TranscriptWorker_run_success [of sample_urllib "pystr ''https://youtu.be/dQw4w9WgXcQ''" "pystr ''dQw4w9WgXcQ''"
        sample_services "[pystr ''Hi'']" "pystr ''Text''" TextFormatter "pystr ''txt''" "pystr ''Hi''" "[72, 105]" Map.empty]
      id t sf utf8_Hi(1)
    by (simp add: sample_services_def formatters_def)
  from language_selection_ignored [OF h1 h2, of sample_urllib sample_services Map.empty] s run
  show ?thesis by (simp add: start_conversion_def)
qed

end
